theory Spec2Isabelle
  imports Main
begin

section \<open>Command classifier (unified\_shell.cpp)\<close>

text \<open>
  \<^verbatim>\<open>enum class CommandMode { WINDOWS, LINUX, AUTO_DETECT }\<close> of unified\_shell.hpp.
\<close>

datatype CommandMode = WINDOWS | LINUX | AUTO_DETECT

text \<open>
  The three static \<^verbatim>\<open>std::unordered_set<std::string>\<close> tables, in the order the
  source lists their elements. Only membership is ever asked of them.
\<close>

definition windowsCommands :: "string list" where
  "windowsCommands =
    [''dir'', ''copy'', ''move'', ''del'', ''md'', ''rd'', ''cd'', ''type'', ''cls'', ''echo'',
     ''set'', ''path'', ''prompt'', ''title'', ''color'', ''date'', ''time'', ''ver'',
     ''vol'', ''tree'', ''attrib'', ''comp'', ''fc'', ''find'', ''findstr'', ''sort'',
     ''more'', ''xcopy'', ''robocopy'', ''tasklist'', ''taskkill'', ''net'', ''ping'',
     ''ipconfig'', ''netstat'', ''systeminfo'', ''driverquery'', ''reg'', ''sc'',
     ''powershell'', ''cmd'', ''notepad'', ''calc'', ''mspaint'', ''explorer'']"

definition linuxCommands :: "string list" where
  "linuxCommands =
    [''ls'', ''cat'', ''grep'', ''awk'', ''sed'', ''sort'', ''uniq'', ''head'', ''tail'',
     ''wc'', ''cut'', ''tr'', ''find'', ''locate'', ''which'', ''whereis'', ''file'',
     ''chmod'', ''chown'', ''chgrp'', ''umask'', ''ln'', ''cp'', ''mv'', ''rm'', ''mkdir'',
     ''rmdir'', ''pwd'', ''cd'', ''pushd'', ''popd'', ''du'', ''df'', ''mount'', ''umount'',
     ''ps'', ''top'', ''htop'', ''kill'', ''killall'', ''jobs'', ''fg'', ''bg'', ''nohup'',
     ''screen'', ''tmux'', ''man'', ''info'', ''less'', ''more'', ''nano'', ''vim'', ''emacs'',
     ''tar'', ''gzip'', ''gunzip'', ''zip'', ''unzip'', ''curl'', ''wget'', ''ssh'', ''scp'',
     ''rsync'', ''ping'', ''netstat'', ''ifconfig'', ''iptables'', ''systemctl'', ''service'']"

definition builtins :: "string list" where
  "builtins =
    [''help'', ''exit'', ''quit'', ''mode'', ''config'', ''status'', ''history'', ''clear'',
     ''cls'']"

text \<open>
  \<^verbatim>\<open>WindowsExecutor::isWindowsCommand\<close> and \<^verbatim>\<open>LinuxExecutor::isLinuxCommand\<close>:
  \<^verbatim>\<open>table.find(command) != table.end()\<close>. The \<^verbatim>\<open>CommandDetector\<close> functions of
  the same names go through \<^verbatim>\<open>canHandleCommand\<close>, which returns exactly these.
\<close>

definition isWindowsCommand :: "string \<Rightarrow> bool" where
  "isWindowsCommand command = (command \<in> set windowsCommands)"

definition isLinuxCommand :: "string \<Rightarrow> bool" where
  "isLinuxCommand command = (command \<in> set linuxCommands)"

definition isBuiltinCommand :: "string \<Rightarrow> bool" where
  "isBuiltinCommand command = (command \<in> set builtins)"

text \<open>\<^verbatim>\<open>CommandDetector::detectCommandType\<close>, the three tests in the source's order.\<close>

definition detectCommandType :: "string \<Rightarrow> CommandMode" where
  "detectCommandType command =
    (if isBuiltinCommand command then AUTO_DETECT
     else if isWindowsCommand command then WINDOWS
     else if isLinuxCommand command then LINUX
     else AUTO_DETECT)"


section \<open>The job-control shell: text utilities\<close>

text \<open>
  Whitespace of the classic locale, which is what \<^verbatim>\<open>ss >> tok\<close> skips and what
  \<^verbatim>\<open>strtol\<close> (under \<^verbatim>\<open>std::stoi\<close>) skips: space, \<^verbatim>\<open>\t \n \v \f \r\<close>.
\<close>

definition isspace :: "char \<Rightarrow> bool" where
  "isspace c = (c \<in> set [CHR '' '', CHR 0x09, CHR 0x0A, CHR 0x0B, CHR 0x0C, CHR 0x0D])"

definition isdigit :: "char \<Rightarrow> bool" where
  "isdigit c = (c \<in> set ''0123456789'')"

text \<open>
  \<^verbatim>\<open>tokenize\<close>: \<^verbatim>\<open>while (ss >> tok) out.push_back(tok)\<close>. The first argument is
  the token being read.
\<close>

fun tokenize_from :: "string \<Rightarrow> string \<Rightarrow> string list" where
  "tokenize_from tok [] = (if tok = [] then [] else [tok])"
| "tokenize_from tok (c # cs) =
    (if isspace c then (if tok = [] then tokenize_from [] cs else tok # tokenize_from [] cs)
     else tokenize_from (tok @ [c]) cs)"

definition tokenize :: "string \<Rightarrow> string list" where
  "tokenize line = tokenize_from [] line"

text \<open>
  \<^verbatim>\<open>splitByPipe\<close>: \<^verbatim>\<open>while (std::getline(ss, segment, '|')) commands.push_back(segment)\<close>.
  \<^verbatim>\<open>getline\<close> fails, and the loop ends, when it meets the end of the input before
  extracting any character: a trailing \<^verbatim>\<open>|\<close> gives no empty last segment, and the empty
  line gives no segment at all.
\<close>

fun splitByPipe_from :: "string \<Rightarrow> string \<Rightarrow> string list" where
  "splitByPipe_from segment [] = (if segment = [] then [] else [segment])"
| "splitByPipe_from segment (c # cs) =
    (if c = CHR ''|'' then segment # splitByPipe_from [] cs
     else splitByPipe_from (segment @ [c]) cs)"

definition splitByPipe :: "string \<Rightarrow> string list" where
  "splitByPipe input = splitByPipe_from [] input"

text \<open>
  \<^verbatim>\<open>std::stoi(str)\<close> in base 10: leading whitespace, an optional sign, then the longest
  run of digits; whatever follows is ignored. It throws \<^verbatim>\<open>std::invalid_argument\<close> when
  there is no digit to convert and \<^verbatim>\<open>std::out_of_range\<close> when the value does not fit
  an \<^verbatim>\<open>int\<close> (32 bits).
\<close>

datatype cpp_exception = invalid_argument | out_of_range

definition digit_value :: "char \<Rightarrow> int" where
  "digit_value c = int (of_char c) - 48"

definition digits_value :: "string \<Rightarrow> int" where
  "digits_value ds = foldl (\<lambda>v c. 10 * v + digit_value c) 0 ds"

definition stoi :: "string \<Rightarrow> cpp_exception + int" where
  "stoi str =
    (let s = dropWhile isspace str;
         negative = (s \<noteq> [] \<and> hd s = CHR ''-'');
         signed = (s \<noteq> [] \<and> (hd s = CHR ''-'' \<or> hd s = CHR ''+''));
         ds = takeWhile isdigit (if signed then tl s else s);
         v = (if negative then - digits_value ds else digits_value ds)
     in if ds = [] then Inl invalid_argument
        else if v < - 2147483648 \<or> 2147483647 < v then Inl out_of_range
        else Inr v)"

section \<open>The job table and the child-state handler\<close>

text \<open>\<^verbatim>\<open>struct Job { int id; pid_t pid; std::string cmdline; bool running; }\<close>\<close>

record Job =
  job_id :: int
  pid :: int
  cmdline :: string
  running :: bool

text \<open>
  What \<^verbatim>\<open>waitpid(-1, &status, WNOHANG | WUNTRACED | WCONTINUED)\<close> stores in
  \<^verbatim>\<open>status\<close>: the child exited with a code, was killed by a signal, was stopped by a
  signal, or was continued. The four macros of \<^verbatim>\<open>sys/wait.h\<close> read it.
\<close>

datatype wstatus = WExited int | WSignaled int | WStopped int | WContinued

fun WIFEXITED :: "wstatus \<Rightarrow> bool" where
  "WIFEXITED (WExited _) = True"
| "WIFEXITED _ = False"

fun WIFSIGNALED :: "wstatus \<Rightarrow> bool" where
  "WIFSIGNALED (WSignaled _) = True"
| "WIFSIGNALED _ = False"

fun WIFSTOPPED :: "wstatus \<Rightarrow> bool" where
  "WIFSTOPPED (WStopped _) = True"
| "WIFSTOPPED _ = False"

fun WIFCONTINUED :: "wstatus \<Rightarrow> bool" where
  "WIFCONTINUED WContinued = True"
| "WIFCONTINUED _ = False"

text \<open>The body of \<^verbatim>\<open>for (auto &job : jobs)\<close> in \<^verbatim>\<open>sigchldHandler\<close>.\<close>

definition reap_job :: "int \<Rightarrow> wstatus \<Rightarrow> Job \<Rightarrow> Job" where
  "reap_job p status job =
    (if pid job \<noteq> p then job
     else if WIFEXITED status \<or> WIFSIGNALED status then job\<lparr>running := False\<rparr>
     else if WIFSTOPPED status then job\<lparr>running := False\<rparr>
     else if WIFCONTINUED status then job\<lparr>running := True\<rparr>
     else job)"

text \<open>
  \<^verbatim>\<open>sigchldHandler\<close>. The first argument is what the successive calls of
  \<^verbatim>\<open>waitpid\<close> return (process identifier and status); the loop ends at the first
  return value that is not positive, or when nothing is left to reap.
\<close>

fun sigchldHandler :: "(int \<times> wstatus) list \<Rightarrow> Job list \<Rightarrow> Job list" where
  "sigchldHandler [] jobs = jobs"
| "sigchldHandler ((p, status) # pending) jobs =
    (if p > 0 then sigchldHandler pending (map (reap_job p status) jobs) else jobs)"


section \<open>System calls and output as a trace\<close>

text \<open>
  A file descriptor as the source names it: the two standard streams, the \<open>j\<close>-th cell
  of the array \<^verbatim>\<open>pipefds\<close> that \<^verbatim>\<open>pipe\<close> filled, or the number \<^verbatim>\<open>open\<close>
  returned (\<open>-1\<close> when it failed).
\<close>

datatype fdesc = STDIN_FILENO | STDOUT_FILENO | Pipefds int | Fd int

text \<open>The three flag words \<^verbatim>\<open>handleRedirection\<close> passes to \<^verbatim>\<open>open\<close>.\<close>

datatype open_flags = O_WRONLY_CREAT_TRUNC | O_WRONLY_CREAT_APPEND | O_RDONLY

text \<open>
  One item of a \<^verbatim>\<open><<\<close> chain: a string, an integer printed in decimal, the text of
  \<^verbatim>\<open>strerror(errno)\<close>, and the help text of \<^verbatim>\<open>handleBuiltins\<close>.
\<close>

datatype out_item = Str string | Num int | Strerror | HelpText

text \<open>How a child process ends: its image replaced by \<^verbatim>\<open>execvp\<close>, \<^verbatim>\<open>exit(code)\<close>,
  or undefined behaviour.\<close>

datatype child_end = Replaced "string list" | Exited int | Crashed

text \<open>
  What a process does, in order. \<open>Fork evs e\<close> is one call of \<^verbatim>\<open>fork\<close> by the
  parent, with what the child it creates goes on to do. \<open>Pipe i\<close> is
  \<^verbatim>\<open>pipe(pipefds + i * 2)\<close>; \<open>Wait\<close> is \<^verbatim>\<open>wait(nullptr)\<close>; \<open>Waitpid p\<close> is
  \<^verbatim>\<open>waitpid(p, nullptr, 0)\<close>; \<open>Kill_SIGCONT p\<close> is \<^verbatim>\<open>kill(p, SIGCONT)\<close>.
\<close>

datatype event =
    Pipe int
  | Fork "event list" child_end
  | Close fdesc
  | Dup2 fdesc fdesc
  | Open string open_flags
  | Execvp "string list"
  | Wait
  | Waitpid int
  | Kill_SIGCONT int
  | Chdir "string option"
  | Putenv string
  | AppendHistory string
  | Cout "out_item list"
  | Cerr "out_item list"
  | Perror string

text \<open>
  What the operating system answers: the descriptor \<^verbatim>\<open>open\<close> returns for a path
  (\<open>-1\<close> when the path cannot be opened), whether \<^verbatim>\<open>execvp\<close> finds and starts the
  program, whether \<^verbatim>\<open>chdir\<close> succeeds, the value of \<^verbatim>\<open>HOME\<close>, and the lines of the
  history file.
\<close>

record os =
  os_open :: "string \<Rightarrow> open_flags \<Rightarrow> int"
  os_execvp :: "string list \<Rightarrow> bool"
  os_chdir :: "string \<Rightarrow> bool"
  os_home :: "string option"
  os_history_file :: "string list"

text \<open>\<^verbatim>\<open>for (int i = lo; i < n; ++i) body\<close>, collecting what the body does.\<close>

function for_range :: "int \<Rightarrow> int \<Rightarrow> (int \<Rightarrow> event list) \<Rightarrow> event list" where
  "for_range i n body = (if i < n then body i @ for_range (i + 1) n body else [])"
  by pat_completeness auto
termination
  by (relation "measure (\<lambda>(i, n, body). nat (n - i))") auto

declare for_range.simps [simp del]

section \<open>Redirection\<close>

definition is_redirect :: "string \<Rightarrow> bool" where
  "is_redirect a = (a = ''>'' \<or> a = ''>>'' \<or> a = ''<'')"

definition redirect_flags :: "string \<Rightarrow> open_flags" where
  "redirect_flags a =
    (if a = ''>'' then O_WRONLY_CREAT_TRUNC
     else if a = ''>>'' then O_WRONLY_CREAT_APPEND
     else O_RDONLY)"

text \<open>
  \<^verbatim>\<open>handleRedirection\<close>: the loop at index \<open>i\<close> over the vector \<open>args\<close>. After
  \<^verbatim>\<open>args.erase(args.begin() + i, args.begin() + i + 2)\<close> the source does \<^verbatim>\<open>i--\<close> and
  the loop header \<^verbatim>\<open>++i\<close> (on a \<^verbatim>\<open>size_t\<close>, so this is defined at \<open>i = 0\<close> too): the
  scan goes on at the same index. The result of \<^verbatim>\<open>open\<close> is not tested.
\<close>

function handleRedirection_loop :: "os \<Rightarrow> nat \<Rightarrow> string list \<Rightarrow> event list \<times> string list"
  where
  "handleRedirection_loop sys i args =
    (if i < length args then
       (if is_redirect (args ! i) then
          (if i + 1 \<ge> length args then handleRedirection_loop sys (i + 1) args
           else
             (let flags = redirect_flags (args ! i);
                  fd = os_open sys (args ! (i + 1)) flags;
                  evs = [Open (args ! (i + 1)) flags,
                         (if args ! i = ''<'' then Dup2 (Fd fd) STDIN_FILENO
                          else Dup2 (Fd fd) STDOUT_FILENO),
                         Close (Fd fd)];
                  r = handleRedirection_loop sys i (take i args @ drop (i + 2) args)
              in (evs @ fst r, snd r)))
        else handleRedirection_loop sys (i + 1) args)
     else ([], args))"
  by pat_completeness auto
termination
  by (relation "measure (\<lambda>(sys, i, args). length args - i)") auto

declare handleRedirection_loop.simps [simp del]

definition handleRedirection :: "os \<Rightarrow> string list \<Rightarrow> event list \<times> string list" where
  "handleRedirection sys args = handleRedirection_loop sys 0 args"

text \<open>
  The same scan by recursion on the list, for the proofs: an operator with a token after
  it takes that token as its path and both are dropped; any other token is kept. It is
  proved equal to \<open>handleRedirection\<close> below (\<open>handleRedirection_scan\<close>); no
  statement about the program is made in its terms.
\<close>

fun redirect_scan :: "os \<Rightarrow> string list \<Rightarrow> event list \<times> string list" where
  "redirect_scan sys (a # b # rest) =
    (if is_redirect a then
       ([Open b (redirect_flags a),
         (if a = ''<'' then Dup2 (Fd (os_open sys b (redirect_flags a))) STDIN_FILENO
          else Dup2 (Fd (os_open sys b (redirect_flags a))) STDOUT_FILENO),
         Close (Fd (os_open sys b (redirect_flags a)))] @ fst (redirect_scan sys rest),
        snd (redirect_scan sys rest))
     else (fst (redirect_scan sys (b # rest)), a # snd (redirect_scan sys (b # rest))))"
| "redirect_scan sys [a] = ([], [a])"
| "redirect_scan sys [] = ([], [])"

section \<open>Typo suggestion\<close>

text \<open>
  \<^verbatim>\<open>levenshtein\<close>: the table \<^verbatim>\<open>dp\<close> row by row. \<open>lev_row\<close> fills the cells
  \<^verbatim>\<open>dp[i][j]\<close> of one row from the row above (\<open>diag\<close> is \<^verbatim>\<open>dp[i-1][j-1]\<close>, \<open>up\<close> is
  \<^verbatim>\<open>dp[i-1][j]\<close>, \<open>left\<close> is \<^verbatim>\<open>dp[i][j-1]\<close>).
\<close>

fun lev_row :: "char \<Rightarrow> string \<Rightarrow> int list \<Rightarrow> int \<Rightarrow> int list" where
  "lev_row ai (bj # bs) (diag # up # prev) left =
    (let v = min (up + 1) (min (left + 1) (diag + (if ai \<noteq> bj then 1 else 0)))
     in v # lev_row ai bs (up # prev) v)"
| "lev_row ai _ _ _ = []"

fun lev_rows :: "string \<Rightarrow> string \<Rightarrow> int \<Rightarrow> int list \<Rightarrow> int list" where
  "lev_rows [] b i prev = prev"
| "lev_rows (ai # a) b i prev = lev_rows a b (i + 1) ((i + 1) # lev_row ai b prev (i + 1))"

definition levenshtein :: "string \<Rightarrow> string \<Rightarrow> int" where
  "levenshtein a b = last (lev_rows a b 0 (map int [0..<length b + 1]))"

definition suggest_builtins :: "string list" where
  "suggest_builtins = [''cd'', ''export'', ''exit'', ''help'', ''history'', ''jobs'', ''fg'', ''bg'']"

fun suggest_loop :: "string \<Rightarrow> string list \<Rightarrow> string \<Rightarrow> int \<Rightarrow> string \<times> int" where
  "suggest_loop cmd [] best bestDist = (best, bestDist)"
| "suggest_loop cmd (b # bs) best bestDist =
    (let dist = levenshtein cmd b
     in if dist < bestDist then suggest_loop cmd bs b dist
        else suggest_loop cmd bs best bestDist)"

definition suggest :: "string \<Rightarrow> event list" where
  "suggest cmd =
    (let r = suggest_loop cmd suggest_builtins [] 1000000000
     in if snd r \<le> 2 then [Cout [Str ''Did you mean `'', Str (fst r), Str (''`?'' @ [CHR 0x0A])]]
        else [])"


section \<open>Child processes\<close>

text \<open>
  The child branch (\<^verbatim>\<open>pid == 0\<close>) of \<^verbatim>\<open>executePipeline\<close> for stage \<open>i\<close>: wire the
  pipes, close every pipe descriptor, tokenize, redirect, \<^verbatim>\<open>execvp\<close>; when \<^verbatim>\<open>execvp\<close>
  returns, \<^verbatim>\<open>perror("exec failed")\<close> and \<^verbatim>\<open>exit(1)\<close>. With no argument left,
  \<^verbatim>\<open>argv[0]\<close> is the null pointer, which \<^verbatim>\<open>execvp\<close> must not be given.
\<close>

definition pipeline_child :: "os \<Rightarrow> string list \<Rightarrow> int \<Rightarrow> event list \<times> child_end" where
  "pipeline_child sys commands i =
    (let n = int (length commands);
         wiring =
           (if i > 0 then [Dup2 (Pipefds ((i - 1) * 2)) STDIN_FILENO] else []) @
           (if i < n - 1 then [Dup2 (Pipefds (i * 2 + 1)) STDOUT_FILENO] else []) @
           for_range 0 (2 * (n - 1)) (\<lambda>j. [Close (Pipefds j)]);
         r = handleRedirection sys (tokenize (commands ! nat i));
         args = snd r
     in if args = [] then (wiring @ fst r @ [Execvp args], Crashed)
        else if os_execvp sys args then (wiring @ fst r @ [Execvp args], Replaced args)
        else (wiring @ fst r @ [Execvp args, Perror ''exec failed''], Exited 1))"

text \<open>
  The child branch of \<^verbatim>\<open>runCommand\<close>: redirect, \<^verbatim>\<open>execvp\<close>; when \<^verbatim>\<open>execvp\<close>
  returns, print the command's name with the error text, call \<^verbatim>\<open>suggest\<close>, and
  \<^verbatim>\<open>exit(1)\<close>.
\<close>

definition single_child :: "os \<Rightarrow> string list \<Rightarrow> event list \<times> child_end" where
  "single_child sys args0 =
    (let r = handleRedirection sys args0;
         args = snd r
     in if args = [] then (fst r @ [Execvp args], Crashed)
        else if os_execvp sys args then (fst r @ [Execvp args], Replaced args)
        else (fst r @ [Execvp args,
                       Cerr [Str ''Error: `'', Str (args ! 0), Str ''`: '', Strerror,
                             Str [CHR 0x0A]]] @
              suggest (args ! 0), Exited 1))"

section \<open>The parent: built-ins, job control, pipelines\<close>

text \<open>
  Why the shell process ends before its read loop does: a call of \<^verbatim>\<open>exit\<close>, an
  exception that nothing catches (\<^verbatim>\<open>std::terminate\<close>), or undefined behaviour.
\<close>

datatype abort = ExitCalled int | Uncaught cpp_exception | UndefinedBehaviour

fun print_history :: "int \<Rightarrow> string list \<Rightarrow> event list" where
  "print_history i [] = []"
| "print_history i (h # hs) =
    Cout [Num (i + 1), Str ''  '', Str h, Str [CHR 0x0A]] # print_history (i + 1) hs"

text \<open>
  \<^verbatim>\<open>handleBuiltins\<close>; the third argument is the global \<^verbatim>\<open>history\<close>. The result is the
  \<^verbatim>\<open>bool\<close> returned, with what was done; \<^verbatim>\<open>exit(0)\<close> does not return.
\<close>

definition handleBuiltins :: "os \<Rightarrow> string list \<Rightarrow> string list \<Rightarrow> abort + (bool \<times> event list)"
  where
  "handleBuiltins sys args hist =
    (if args = [] then Inr (True, [])
     else if args ! 0 = ''cd'' then
       (let dir = (if length args > 1 then Some (args ! 1) else os_home sys);
            ok = (case dir of None \<Rightarrow> False | Some d \<Rightarrow> os_chdir sys d)
        in Inr (True, Chdir dir # (if ok then [] else [Perror ''cd failed''])))
     else if args ! 0 = ''export'' then
       (if length args = 2 then Inr (True, [Putenv (args ! 1)])
        else Inr (True, [Cerr [Str (''Usage: export KEY=VALUE'' @ [CHR 0x0A])]]))
     else if args ! 0 = ''history'' then Inr (True, print_history 0 hist)
     else if args ! 0 = ''help'' then Inr (True, [Cout [HelpText]])
     else if args ! 0 = ''exit'' \<or> args ! 0 = ''$Q'' then Inl (ExitCalled 0)
     else Inr (False, []))"

definition print_job :: "Job \<Rightarrow> event" where
  "print_job job =
    Cout [Str ''['', Num (job_id job), Str ''] '',
          Str (if running job then ''Running'' else ''Stopped/Done''),
          Str ''  '', Str (cmdline job), Str [CHR 0x0A]]"

text \<open>
  The loop \<^verbatim>\<open>for (auto it = jobs.begin(); it != jobs.end(); ++it)\<close> of the
  \<^verbatim>\<open>fg\<close>/\<^verbatim>\<open>bg\<close> branch: \<open>seen\<close> are the jobs before the iterator. \<open>None\<close> when
  the loop ends without finding the identifier.
\<close>

fun fg_bg_loop :: "string \<Rightarrow> int \<Rightarrow> Job list \<Rightarrow> Job list \<Rightarrow> (event list \<times> Job list) option"
  where
  "fg_bg_loop cmd jid seen [] = None"
| "fg_bg_loop cmd jid seen (job # rest) =
    (if job_id job = jid then
       (if cmd = ''fg'' then
          Some ([Kill_SIGCONT (pid job), Waitpid (pid job)], seen @ rest)
        else Some ([Kill_SIGCONT (pid job)], seen @ job\<lparr>running := True\<rparr> # rest))
     else fg_bg_loop cmd jid (seen @ [job]) rest)"

text \<open>
  \<^verbatim>\<open>handleJobBuiltins\<close>: the \<^verbatim>\<open>bool\<close> returned, what was done, and the table
  \<^verbatim>\<open>jobs\<close> afterwards. \<^verbatim>\<open>std::stoi\<close> may throw; nothing here catches it.
\<close>

definition handleJobBuiltins ::
  "string list \<Rightarrow> Job list \<Rightarrow> cpp_exception + (bool \<times> event list \<times> Job list)" where
  "handleJobBuiltins args jobs =
    (if args = [] then Inr (False, [], jobs)
     else if args ! 0 = ''jobs'' then Inr (True, map print_job jobs, jobs)
     else if (args ! 0 = ''fg'' \<or> args ! 0 = ''bg'') \<and> length args = 2 then
       (case stoi (args ! 1) of
          Inl e \<Rightarrow> Inl e
        | Inr jid \<Rightarrow>
            (case fg_bg_loop (args ! 0) jid [] jobs of
               Some (evs, jobs') \<Rightarrow> Inr (True, evs, jobs')
             | None \<Rightarrow>
                 Inr (True,
                      [Cerr [Str (args ! 0), Str '': job not found: '', Num jid,
                             Str [CHR 0x0A]]],
                      jobs)))
     else Inr (False, [], jobs))"

text \<open>
  \<^verbatim>\<open>executePipeline\<close>, the parent's side: the pipes, one \<^verbatim>\<open>fork\<close> per stage (the
  value \<^verbatim>\<open>fork\<close> returns to the parent is not used), the closes, the waits.
\<close>

definition executePipeline :: "os \<Rightarrow> string list \<Rightarrow> event list" where
  "executePipeline sys commands =
    (let n = int (length commands)
     in for_range 0 (n - 1) (\<lambda>i. [Pipe i]) @
        for_range 0 n
          (\<lambda>i. [Fork (fst (pipeline_child sys commands i)) (snd (pipeline_child sys commands i))]) @
        for_range 0 (2 * (n - 1)) (\<lambda>j. [Close (Pipefds j)]) @
        for_range 0 n (\<lambda>i. [Wait]))"

text \<open>The globals of the shell: \<^verbatim>\<open>jobs\<close>, \<^verbatim>\<open>nextJobId\<close>, \<^verbatim>\<open>history\<close>.\<close>

record shell =
  jobs :: "Job list"
  nextJobId :: int
  history :: "string list"

text \<open>
  \<^verbatim>\<open>runCommand\<close> in the parent. \<open>fork_pid\<close> is what \<^verbatim>\<open>fork\<close> returns to the parent
  on the single-command path. \<^verbatim>\<open>input.back()\<close> on an empty string is undefined;
  \<^verbatim>\<open>main\<close> never passes one.
\<close>

definition runCommand :: "os \<Rightarrow> int \<Rightarrow> string \<Rightarrow> shell \<Rightarrow> abort + (event list \<times> shell)" where
  "runCommand sys fork_pid input0 sh =
    (if input0 = [] then Inl UndefinedBehaviour
     else
       (let background = (last input0 = CHR ''&'');
            input = (if background then butlast input0 else input0);
            parts = splitByPipe input
        in if length parts > 1 then Inr (executePipeline sys parts, sh)
           else
             (let args = tokenize input
              in case handleBuiltins sys args (history sh) of
                   Inl a \<Rightarrow> Inl a
                 | Inr (True, evs) \<Rightarrow> Inr (evs, sh)
                 | Inr (False, evs) \<Rightarrow>
                     (case handleJobBuiltins args (jobs sh) of
                        Inl e \<Rightarrow> Inl (Uncaught e)
                      | Inr (True, evs', jobs') \<Rightarrow> Inr (evs @ evs', sh\<lparr>jobs := jobs'\<rparr>)
                      | Inr (False, evs', jobs') \<Rightarrow>
                          (let child = single_child sys args;
                               forked = evs @ evs' @ [Fork (fst child) (snd child)]
                           in if \<not> background then Inr (forked @ [Waitpid fork_pid], sh)
                              else
                                Inr (forked @
                                     [Cout [Str ''['', Num (nextJobId sh), Str ''] '',
                                            Num fork_pid, Str [CHR 0x0A]]],
                                     sh\<lparr>jobs := jobs sh @
                                          [\<lparr>job_id = nextJobId sh, pid = fork_pid,
                                            cmdline = input, running = True\<rparr>],
                                        nextJobId := nextJobId sh + 1\<rparr>))))))"

text \<open>
  The read loop of \<^verbatim>\<open>main\<close>. The list holds the lines \<^verbatim>\<open>readline\<close> returns, each
  with the value \<^verbatim>\<open>fork\<close> would return while that line runs; at its end
  \<^verbatim>\<open>readline\<close> returns the null pointer (end of input). \<open>Inr\<close> is the normal
  \<^verbatim>\<open>return 0\<close>.
\<close>

fun main_loop :: "os \<Rightarrow> (string \<times> int) list \<Rightarrow> shell \<Rightarrow> abort + (event list \<times> shell)" where
  "main_loop sys [] sh = Inr ([Cout [Str ([CHR 0x0A] @ ''Goodbye!'' @ [CHR 0x0A])]], sh)"
| "main_loop sys ((input, fork_pid) # rest) sh =
    (if input = [] then main_loop sys rest sh
     else
       (let sh1 = sh\<lparr>history := history sh @ [input]\<rparr>
        in case runCommand sys fork_pid input sh1 of
             Inl a \<Rightarrow> Inl a
           | Inr (evs, sh2) \<Rightarrow>
               (case main_loop sys rest sh2 of
                  Inl a \<Rightarrow> Inl a
                | Inr (evs', sh3) \<Rightarrow> Inr (AppendHistory input # evs @ evs', sh3))))"

text \<open>
  \<^verbatim>\<open>loadHistory\<close> keeps the first \<^verbatim>\<open>MAX_HISTORY\<close> non-empty lines of the history file.
\<close>

definition MAX_HISTORY :: nat where
  "MAX_HISTORY = 1000"

definition loadHistory :: "os \<Rightarrow> string list" where
  "loadHistory sys = take MAX_HISTORY (filter (\<lambda>line. line \<noteq> []) (os_history_file sys))"

definition main :: "os \<Rightarrow> (string \<times> int) list \<Rightarrow> abort + (event list \<times> shell)" where
  "main sys lines =
    (case main_loop sys lines \<lparr>jobs = [], nextJobId = 1, history = loadHistory sys\<rparr> of
       Inl a \<Rightarrow> Inl a
     | Inr (evs, sh) \<Rightarrow>
         Inr (Cout [Str (''Welcome to Custom Shell! Type 'exit' or '$Q' to quit.'' @ [CHR 0x0A])]
              # evs, sh))"


section \<open>Concrete inputs\<close>

text \<open>
  An operating system on which the model runs on concrete command lines: one path that
  cannot be opened, four programs that \<^verbatim>\<open>execvp\<close> finds.
\<close>

definition example_os :: os where
  "example_os =
    \<lparr>os_open = (\<lambda>path flags. if path = ''/no/such/file'' then - 1 else 3),
     os_execvp = (\<lambda>argv. argv \<noteq> [] \<and> hd argv \<in> set [''cat'', ''sleep'', ''echo'', ''wc'']),
     os_chdir = (\<lambda>dir. True),
     os_home = Some ''/root'',
     os_history_file = []\<rparr>"

text \<open>A job table with two background jobs.\<close>

definition example_jobs :: "Job list" where
  "example_jobs =
    [\<lparr>job_id = 1, pid = 100, cmdline = ''sleep 100 '', running = True\<rparr>,
     \<lparr>job_id = 2, pid = 200, cmdline = ''cat '', running = True\<rparr>]"

text \<open>An event that prints something to the user.\<close>

definition is_report :: "event \<Rightarrow> bool" where
  "is_report e = (case e of Cerr _ \<Rightarrow> True | Perror _ \<Rightarrow> True | Cout _ \<Rightarrow> True | _ \<Rightarrow> False)"

section \<open>Loops in closed form\<close>

lemma for_range_upt:
  "0 \<le> i \<Longrightarrow> for_range i n body = concat (map (\<lambda>k. body (int k)) [nat i..<nat n])"
proof (induction i n body rule: for_range.induct)
  case (1 i n body)
  show ?case
  proof (cases "i < n")
    case True
    with "1.prems" have lt: "nat i < nat n" by simp
    have suc: "nat (i + 1) = Suc (nat i)" using "1.prems" by simp
    have "for_range i n body = body i @ for_range (i + 1) n body"
      using True by (simp add: for_range.simps [of i n body])
    also have "for_range (i + 1) n body = concat (map (\<lambda>k. body (int k)) [Suc (nat i)..<nat n])"
      using "1.IH" [OF True] "1.prems" suc by simp
    finally show ?thesis
      using lt "1.prems" by (simp add: upt_conv_Cons)
  next
    case False
    then show ?thesis by (simp add: for_range.simps [of i n body])
  qed
qed

lemma for_range_singleton:
  "for_range 0 n (\<lambda>i. [f i]) = map (\<lambda>k. f (int k)) [0..<nat n]"
  using for_range_upt [of 0 n "\<lambda>i. [f i]"] by (simp add: concat_map_singleton)

section \<open>The redirection scan\<close>

lemma handleRedirection_loop_end:
  "length args \<le> i \<Longrightarrow> handleRedirection_loop sys i args = ([], args)"
  by (subst handleRedirection_loop.simps) simp

lemma handleRedirection_loop_skip:
  "i < length args \<Longrightarrow> \<not> (is_redirect (args ! i) \<and> i + 1 < length args) \<Longrightarrow>
   handleRedirection_loop sys i args = handleRedirection_loop sys (i + 1) args"
  by (subst handleRedirection_loop.simps) auto

lemma handleRedirection_loop_redirect:
  "i + 1 < length args \<Longrightarrow> is_redirect (args ! i) \<Longrightarrow>
   handleRedirection_loop sys i args =
     ([Open (args ! (i + 1)) (redirect_flags (args ! i)),
       (if args ! i = ''<''
        then Dup2 (Fd (os_open sys (args ! (i + 1)) (redirect_flags (args ! i)))) STDIN_FILENO
        else Dup2 (Fd (os_open sys (args ! (i + 1)) (redirect_flags (args ! i)))) STDOUT_FILENO),
       Close (Fd (os_open sys (args ! (i + 1)) (redirect_flags (args ! i))))] @
      fst (handleRedirection_loop sys i (take i args @ drop (i + 2) args)),
      snd (handleRedirection_loop sys i (take i args @ drop (i + 2) args)))"
  by (subst handleRedirection_loop.simps) (simp add: Let_def)

text \<open>The scan only opens, duplicates and closes descriptors.\<close>

lemma handleRedirection_loop_events:
  "e \<in> set (fst (handleRedirection_loop sys i args)) \<Longrightarrow>
   (\<exists>path flags. e = Open path flags) \<or> (\<exists>fd target. e = Dup2 (Fd fd) target) \<or>
   (\<exists>fd. e = Close (Fd fd))"
proof (induction sys i args rule: handleRedirection_loop.induct)
  case (1 sys i args)
  show ?case
  proof (cases "i < length args \<and> is_redirect (args ! i) \<and> i + 1 < length args")
    case True
    with "1.prems" "1.IH"(2) [OF _ _ _ refl refl refl] show ?thesis
      by (auto simp: handleRedirection_loop_redirect split: if_splits)
  next
    case False
    show ?thesis
    proof (cases "i < length args")
      case lt: True
      with False have "handleRedirection_loop sys i args = handleRedirection_loop sys (i + 1) args"
        by (simp add: handleRedirection_loop_skip)
      with "1.prems" "1.IH"(1) "1.IH"(3) lt False show ?thesis
        by (cases "is_redirect (args ! i)") auto
    next
      case ge: False
      with "1.prems" show ?thesis by (simp add: handleRedirection_loop_end)
    qed
  qed
qed

text \<open>Whatever \<^verbatim>\<open>open\<close> returned is closed, also when it is \<open>-1\<close>.\<close>

lemma handleRedirection_loop_closes:
  "Open path flags \<in> set (fst (handleRedirection_loop sys i args)) \<Longrightarrow>
   Close (Fd (os_open sys path flags)) \<in> set (fst (handleRedirection_loop sys i args))"
proof (induction sys i args rule: handleRedirection_loop.induct)
  case (1 sys i args)
  show ?case
  proof (cases "i < length args \<and> is_redirect (args ! i) \<and> i + 1 < length args")
    case True
    with "1.prems" "1.IH"(2) [OF _ _ _ refl refl refl] show ?thesis
      by (auto simp: handleRedirection_loop_redirect split: if_splits)
  next
    case False
    show ?thesis
    proof (cases "i < length args")
      case lt: True
      with False have "handleRedirection_loop sys i args = handleRedirection_loop sys (i + 1) args"
        by (simp add: handleRedirection_loop_skip)
      with "1.prems" "1.IH"(1) "1.IH"(3) lt False show ?thesis
        by (cases "is_redirect (args ! i)") auto
    next
      case ge: False
      with "1.prems" show ?thesis by (simp add: handleRedirection_loop_end)
    qed
  qed
qed

text \<open>
  A trailing operator that the scan reaches as an operator stays where it is: the scan of
  \<open>xs @ [op]\<close> is the scan of \<open>xs\<close>, with \<open>op\<close> left at the end.
\<close>

lemma handleRedirection_loop_trailing:
  "is_redirect op \<Longrightarrow> i = length xs \<or> (i < length xs \<and> \<not> is_redirect (last xs)) \<Longrightarrow>
   handleRedirection_loop sys i (xs @ [op]) =
     (fst (handleRedirection_loop sys i xs), snd (handleRedirection_loop sys i xs) @ [op])"
proof (induction sys i xs rule: handleRedirection_loop.induct)
  case (1 sys i args)
  show ?case
  proof (cases "i < length args")
    case False
    with "1.prems" have i: "i = length args" by simp
    have "handleRedirection_loop sys i (args @ [op]) =
            handleRedirection_loop sys (i + 1) (args @ [op])"
      using i by (simp add: handleRedirection_loop_skip)
    also have "\<dots> = ([], args @ [op])"
      using i by (simp add: handleRedirection_loop_end)
    finally show ?thesis
      using i by (simp add: handleRedirection_loop_end)
  next
    case True
    with "1.prems" have lastn: "\<not> is_redirect (last args)" by simp
    have nth: "(args @ [op]) ! i = args ! i" using True by (simp add: nth_append)
    show ?thesis
    proof (cases "is_redirect (args ! i)")
      case False
      have step: "i + 1 = length args \<or> (i + 1 < length args \<and> \<not> is_redirect (last args))"
        using True lastn by auto
      have "handleRedirection_loop sys i (args @ [op]) =
              handleRedirection_loop sys (i + 1) (args @ [op])"
        using True False nth by (simp add: handleRedirection_loop_skip)
      moreover have "handleRedirection_loop sys i args = handleRedirection_loop sys (i + 1) args"
        using True False by (simp add: handleRedirection_loop_skip)
      ultimately show ?thesis
        using "1.IH"(3) [OF True False "1.prems"(1) step] by simp
    next
      case isop: True
      have ne: "args \<noteq> []" using True by auto
      have notlast: "i \<noteq> length args - 1"
        using lastn isop last_conv_nth [OF ne] by auto
      with True have lt: "i + 1 < length args" by arith
      have nth1: "(args @ [op]) ! (i + 1) = args ! (i + 1)" using lt by (simp add: nth_append)
      let ?args' = "take i args @ drop (i + 2) args"
      have erase: "take i (args @ [op]) @ drop (i + 2) (args @ [op]) = ?args' @ [op]"
        using lt by simp
      have inv: "i = length ?args' \<or> (i < length ?args' \<and> \<not> is_redirect (last ?args'))"
      proof (cases "i + 2 < length args")
        case True
        then have "drop (i + 2) args \<noteq> []" by simp
        then have "last ?args' = last args" by (simp add: last_drop True)
        with True lastn show ?thesis by auto
      next
        case False
        with lt show ?thesis by auto
      qed
      have ih: "handleRedirection_loop sys i (?args' @ [op]) =
          (fst (handleRedirection_loop sys i ?args'),
           snd (handleRedirection_loop sys i ?args') @ [op])"
        using "1.IH"(2) [OF True isop _ refl refl refl "1.prems"(1) inv] lt by simp
      have l: "i + 1 < length (args @ [op])" "is_redirect ((args @ [op]) ! i)"
        using lt isop nth by simp_all
      show ?thesis
        unfolding handleRedirection_loop_redirect [OF l] handleRedirection_loop_redirect [OF lt isop]
          nth nth1 erase ih
        by simp
    qed
  qed
qed

lemma not_report_simps:
  "\<not> is_report (Open path flags)" "\<not> is_report (Dup2 a b)" "\<not> is_report (Close a)"
  by (simp_all add: is_report_def)

lemma handleRedirection_silent:
  "e \<in> set (fst (handleRedirection sys args)) \<Longrightarrow> \<not> is_report e"
  unfolding handleRedirection_def
  by (drule handleRedirection_loop_events) (auto simp: not_report_simps)

text \<open>
  A pipeline stage always reaches \<^verbatim>\<open>execvp\<close>, with the arguments the scan left, and
  prints nothing before it.
\<close>

lemma pipeline_child_trace:
  "\<exists>pre post. fst (pipeline_child sys commands i) =
       pre @ fst (handleRedirection sys (tokenize (commands ! nat i))) @
       Execvp (snd (handleRedirection sys (tokenize (commands ! nat i)))) # post \<and>
     (\<forall>e \<in> set pre. \<not> is_report e)"
proof -
  let ?n = "int (length commands)"
  let ?pre = "(if i > 0 then [Dup2 (Pipefds ((i - 1) * 2)) STDIN_FILENO] else []) @
           (if i < ?n - 1 then [Dup2 (Pipefds (i * 2 + 1)) STDOUT_FILENO] else []) @
           for_range 0 (2 * (?n - 1)) (\<lambda>j. [Close (Pipefds j)])"
  have "\<forall>e \<in> set ?pre. \<not> is_report e"
    by (auto simp: for_range_singleton not_report_simps)
  moreover have "\<exists>post. fst (pipeline_child sys commands i) =
       ?pre @ fst (handleRedirection sys (tokenize (commands ! nat i))) @
       Execvp (snd (handleRedirection sys (tokenize (commands ! nat i)))) # post"
    by (simp add: pipeline_child_def Let_def)
  ultimately show ?thesis by blast
qed

section \<open>The redirection scan, one redirection at a time\<close>

text \<open>The index loop computes the structural scan of what is left from index \<open>i\<close> on.\<close>

lemma handleRedirection_loop_scan:
  "i \<le> length args \<Longrightarrow>
   handleRedirection_loop sys i args =
     (fst (redirect_scan sys (drop i args)), take i args @ snd (redirect_scan sys (drop i args)))"
proof (induction sys i args rule: handleRedirection_loop.induct)
  case (1 sys i args)
  show ?case
  proof (cases "i < length args")
    case False
    with "1.prems" show ?thesis by (simp add: handleRedirection_loop_end)
  next
    case True
    let ?a = "args ! i"
    let ?tl = "drop (Suc i) args"
    have d: "drop i args = ?a # ?tl"
      using Cons_nth_drop_Suc [OF True] by simp
    have tk: "take (Suc i) args = take i args @ [?a]"
      using True by (simp add: take_Suc_conv_app_nth)
    show ?thesis
    proof (cases "is_redirect ?a \<and> i + 1 < length args")
      case False
      have skip: "handleRedirection_loop sys i args = handleRedirection_loop sys (Suc i) args"
        using True False handleRedirection_loop_skip [of i args sys] by simp
      have ih: "handleRedirection_loop sys (Suc i) args =
         (fst (redirect_scan sys ?tl), take (Suc i) args @ snd (redirect_scan sys ?tl))"
      proof (cases "is_redirect ?a")
        case t: True
        with False have "length args \<le> Suc i" by simp
        then show ?thesis by (simp add: handleRedirection_loop_end)
      next
        case f: False
        have "Suc i \<le> length args" using True by simp
        then show ?thesis using "1.IH"(3) [OF True f] by simp
      qed
      have sc: "redirect_scan sys (?a # ?tl) =
          (fst (redirect_scan sys ?tl), ?a # snd (redirect_scan sys ?tl))"
      proof (cases ?tl)
        case Nil
        then show ?thesis by simp
      next
        case (Cons b rest)
        then have "Suc i < length args" by (cases "Suc i < length args") simp_all
        with False have "\<not> is_redirect ?a" by simp
        with Cons show ?thesis by simp
      qed
      show ?thesis unfolding skip ih d sc tk by simp
    next
      case r: True
      then have lt: "i + 1 < length args" and isop: "is_redirect ?a" by simp_all
      let ?b = "args ! (i + 1)"
      let ?rest = "drop (i + 2) args"
      have tl2: "?tl = ?b # ?rest"
        using Cons_nth_drop_Suc [of "Suc i" args] lt by simp
      let ?args' = "take i args @ drop (i + 2) args"
      have len: "i \<le> length ?args'" using lt by simp
      have dr: "drop i ?args' = ?rest" "take i ?args' = take i args"
        using lt by simp_all
      have ih: "handleRedirection_loop sys i ?args' =
          (fst (redirect_scan sys ?rest), take i args @ snd (redirect_scan sys ?rest))"
        using "1.IH"(2) [OF True isop _ refl refl refl len] lt dr by simp
      show ?thesis
        unfolding handleRedirection_loop_redirect [OF lt isop] ih d tl2
        using isop by simp
    qed
  qed
qed

lemma handleRedirection_scan: "handleRedirection sys args = redirect_scan sys args"
  by (simp add: handleRedirection_def handleRedirection_loop_scan)

lemma redirect_scan_keep:
  "\<not> is_redirect a \<Longrightarrow>
   redirect_scan sys (a # xs) = (fst (redirect_scan sys xs), a # snd (redirect_scan sys xs))"
  by (cases xs) simp_all

lemma redirect_scan_append:
  "\<forall>a \<in> set (snd (redirect_scan sys xs)). \<not> is_redirect a \<Longrightarrow>
   redirect_scan sys (xs @ ys) =
     (fst (redirect_scan sys xs) @ fst (redirect_scan sys ys),
      snd (redirect_scan sys xs) @ snd (redirect_scan sys ys))"
proof (induction sys xs rule: redirect_scan.induct)
  case (1 sys a b rest)
  show ?case
  proof (cases "is_redirect a")
    case True
    with "1.prems" have "\<forall>x \<in> set (snd (redirect_scan sys rest)). \<not> is_redirect x" by simp
    from "1.IH"(1) [OF True this] True show ?thesis by simp
  next
    case False
    with "1.prems" have "\<forall>x \<in> set (snd (redirect_scan sys (b # rest))). \<not> is_redirect x"
      by simp
    from "1.IH"(3) [OF False this] have
      "redirect_scan sys (b # rest @ ys) =
         (fst (redirect_scan sys (b # rest)) @ fst (redirect_scan sys ys),
          snd (redirect_scan sys (b # rest)) @ snd (redirect_scan sys ys))" by simp
    then show ?thesis
      using False by simp
  qed
next
  case (3 sys)
  then show ?case by simp
next
  case (2 sys v)
  then have "\<not> is_redirect v" by simp
  then show ?case using redirect_scan_keep [of v sys ys] by simp
qed

lemma redirect_scan_open:
  "Open path flags \<in> set (fst (redirect_scan sys args)) \<Longrightarrow>
   \<exists>xs op rest. args = xs @ op # path # rest \<and> is_redirect op \<and> flags = redirect_flags op \<and>
     (\<forall>a \<in> set (snd (redirect_scan sys xs)). \<not> is_redirect a)"
proof (induction sys args rule: redirect_scan.induct)
  case (1 sys a b rest)
  show ?case
  proof (cases "is_redirect a")
    case True
    show ?thesis
    proof (cases "Open path flags \<in> set (fst (redirect_scan sys rest))")
      case False
      with "1.prems" True have "path = b" "flags = redirect_flags a"
        by (auto split: if_splits)
      with True have "a # b # rest = [] @ a # path # rest \<and> is_redirect a \<and> flags = redirect_flags a \<and>
         (\<forall>x \<in> set (snd (redirect_scan sys [])). \<not> is_redirect x)" by simp
      then show ?thesis by blast
    next
      case inrest: True
      from "1.IH"(1) [OF True inrest] obtain xs op rest' where
        h: "rest = xs @ op # path # rest'" "is_redirect op" "flags = redirect_flags op"
          "\<forall>x \<in> set (snd (redirect_scan sys xs)). \<not> is_redirect x" by blast
      have "a # b # rest = (a # b # xs) @ op # path # rest'" using h by simp
      moreover have "\<forall>x \<in> set (snd (redirect_scan sys (a # b # xs))). \<not> is_redirect x"
        using h True by simp
      ultimately show ?thesis using h by blast
    qed
  next
    case False
    with "1.prems" have "Open path flags \<in> set (fst (redirect_scan sys (b # rest)))" by simp
    from "1.IH"(3) [OF False this] obtain xs op rest' where
        h: "b # rest = xs @ op # path # rest'" "is_redirect op" "flags = redirect_flags op"
          "\<forall>x \<in> set (snd (redirect_scan sys xs)). \<not> is_redirect x" by blast
    have "a # b # rest = (a # xs) @ op # path # rest'" using h by simp
    moreover have "\<forall>x \<in> set (snd (redirect_scan sys (a # xs))). \<not> is_redirect x"
      using h False by (simp add: redirect_scan_keep)
    ultimately show ?thesis using h by blast
  qed
next
  case (3 sys)
  then show ?case by simp
next
  case (2 sys v)
  then show ?case by simp
qed

text \<open>
  Every \<^verbatim>\<open>open\<close> the scan makes comes from an operator followed by its path, reached
  after a part of the list that the scan leaves without operators; the scan of the whole
  list is the scan of that part, the three calls for this operator, and the scan of what
  follows the path.
\<close>

lemma handleRedirection_decompose:
  assumes "Open path flags \<in> set (fst (handleRedirection sys args))"
  shows "\<exists>xs op rest.
        args = xs @ op # path # rest \<and> is_redirect op \<and> flags = redirect_flags op \<and>
        (\<forall>a \<in> set (snd (handleRedirection sys xs)). \<not> is_redirect a) \<and>
        handleRedirection sys args =
          (fst (handleRedirection sys xs) @
           [Open path flags,
            Dup2 (Fd (os_open sys path flags))
              (if op = ''<'' then STDIN_FILENO else STDOUT_FILENO),
            Close (Fd (os_open sys path flags))] @
           fst (handleRedirection sys rest),
           snd (handleRedirection sys xs) @ snd (handleRedirection sys rest))"
proof -
  from assms have "Open path flags \<in> set (fst (redirect_scan sys args))"
    by (simp add: handleRedirection_scan)
  from redirect_scan_open [OF this] obtain xs op rest where
    h: "args = xs @ op # path # rest" "is_redirect op" "flags = redirect_flags op"
      "\<forall>a \<in> set (snd (redirect_scan sys xs)). \<not> is_redirect a" by blast
  have "redirect_scan sys (op # path # rest) =
     ([Open path flags,
       Dup2 (Fd (os_open sys path flags)) (if op = ''<'' then STDIN_FILENO else STDOUT_FILENO),
       Close (Fd (os_open sys path flags))] @ fst (redirect_scan sys rest),
      snd (redirect_scan sys rest))"
    using h(2,3) by simp
  with redirect_scan_append [OF h(4), of "op # path # rest"] h(1)
  have "redirect_scan sys args =
          (fst (redirect_scan sys xs) @
           [Open path flags,
            Dup2 (Fd (os_open sys path flags))
              (if op = ''<'' then STDIN_FILENO else STDOUT_FILENO),
            Close (Fd (os_open sys path flags))] @
           fst (redirect_scan sys rest),
           snd (redirect_scan sys xs) @ snd (redirect_scan sys rest))"
    by simp
  with h show ?thesis unfolding handleRedirection_scan by blast
qed

lemma single_child_trace:
  "\<exists>post. fst (single_child sys args) =
      fst (handleRedirection sys args) @ Execvp (snd (handleRedirection sys args)) # post"
  by (simp add: single_child_def Let_def)

section \<open>The job table\<close>

lemma reap_job_fields:
  "job_id (reap_job p st j) = job_id j" "pid (reap_job p st j) = pid j"
  "cmdline (reap_job p st j) = cmdline j"
  by (simp_all add: reap_job_def)

lemma reap_job_other: "pid j \<noteq> p \<Longrightarrow> reap_job p st j = j"
  by (simp add: reap_job_def)

lemma sigchldHandler_length: "length (sigchldHandler pending tbl) = length tbl"
  by (induction pending tbl rule: sigchldHandler.induct) auto

lemma sigchldHandler_fields:
  "map job_id (sigchldHandler pending tbl) = map job_id tbl \<and>
   map pid (sigchldHandler pending tbl) = map pid tbl \<and>
   map cmdline (sigchldHandler pending tbl) = map cmdline tbl"
  by (induction pending tbl rule: sigchldHandler.induct) (auto simp: reap_job_fields comp_def)

lemma sigchldHandler_nth_other:
  "i < length tbl \<Longrightarrow> pid (tbl ! i) \<notin> fst ` set pending \<Longrightarrow>
   sigchldHandler pending tbl ! i = tbl ! i"
proof (induction pending tbl rule: sigchldHandler.induct)
  case (1 tbl)
  then show ?case by simp
next
  case (2 p status pending tbl)
  show ?case
  proof (cases "p > 0")
    case True
    have ne: "pid (tbl ! i) \<noteq> p" using "2.prems" by auto
    have "map (reap_job p status) tbl ! i = tbl ! i"
      using "2.prems"(1) ne by (simp add: reap_job_other)
    moreover have "pid (map (reap_job p status) tbl ! i) \<notin> fst ` set pending"
      using "2.prems" by (simp add: reap_job_fields)
    ultimately show ?thesis
      using "2.IH" [OF True] "2.prems"(1) True by simp
  next
    case False
    then show ?thesis by simp
  qed
qed

lemma sigchldHandler_no_match:
  "\<forall>j \<in> set tbl. pid j \<notin> fst ` set pending \<Longrightarrow> sigchldHandler pending tbl = tbl"
  by (rule nth_equalityI) (auto simp: sigchldHandler_length sigchldHandler_nth_other)

lemma fg_bg_loop_absent:
  "\<forall>k \<in> set tbl. job_id k \<noteq> jid \<Longrightarrow> fg_bg_loop cmd jid seen tbl = None"
  by (induction tbl arbitrary: seen) auto

lemma fg_bg_loop_present:
  "\<forall>k \<in> set pre. job_id k \<noteq> jid \<Longrightarrow> job_id j = jid \<Longrightarrow>
   fg_bg_loop cmd jid seen (pre @ j # rest) =
     (if cmd = ''fg'' then Some ([Kill_SIGCONT (pid j), Waitpid (pid j)], seen @ pre @ rest)
      else Some ([Kill_SIGCONT (pid j)], seen @ pre @ j\<lparr>running := True\<rparr> # rest))"
  by (induction pre arbitrary: seen) auto

section \<open>The classifier's tables\<close>

lemma windows_builtin:
  "command \<in> set windowsCommands \<Longrightarrow> command \<noteq> ''cls'' \<Longrightarrow> command \<notin> set builtins"
  by (auto simp: windowsCommands_def builtins_def)

lemma linux_builtin: "command \<in> set linuxCommands \<Longrightarrow> command \<notin> set builtins"
  by (auto simp: linuxCommands_def builtins_def)

lemma tables_overlap:
  "set windowsCommands \<inter> set linuxCommands =
     {''cd'', ''sort'', ''find'', ''more'', ''ping'', ''netstat''}"
  by (auto simp: windowsCommands_def linuxCommands_def)


section \<open>Pipelines in \<^verbatim>\<open>runCommand\<close>\<close>

text \<open>
  Whatever the value of \<^verbatim>\<open>background\<close>, a line that splits into more than one part is
  handed to \<^verbatim>\<open>executePipeline\<close> and the globals are left as they were.
\<close>

lemma runCommand_pipeline:
  "input \<noteq> [] \<Longrightarrow>
   1 < length (splitByPipe (if last input = CHR ''&'' then butlast input else input)) \<Longrightarrow>
   runCommand sys fork_pid input sh =
     Inr (executePipeline sys
            (splitByPipe (if last input = CHR ''&'' then butlast input else input)), sh)"
  by (simp add: runCommand_def Let_def)

section \<open>Claims\<close>

text \<open>
  C1. A pipeline of two or more stages marked background (trailing \<^verbatim>\<open>&\<close>) should have
  only its last stage's process identifier recorded as a new job, the parent returning
  without waiting. \<^verbatim>\<open>runCommand\<close> strips the \<^verbatim>\<open>&\<close> and sets \<^verbatim>\<open>background\<close>, but
  its pipeline branch calls \<^verbatim>\<open>executePipeline\<close> and returns without looking at the
  flag: on \<^verbatim>\<open>sleep 5 | cat &\<close> the parent waits twice and the job table stays empty.
  The single-command branch of the same function does record the job and does not wait.
\<close>

theorem runCommand_background_pipeline:
  "runCommand example_os 100 ''sleep 5 | cat &''
     \<lparr>jobs = [], nextJobId = 1, history = [''sleep 5 | cat &'']\<rparr> =
   Inr ([Pipe 0,
         Fork [Dup2 (Pipefds 1) STDOUT_FILENO, Close (Pipefds 0), Close (Pipefds 1),
               Execvp [''sleep'', ''5'']]
              (Replaced [''sleep'', ''5'']),
         Fork [Dup2 (Pipefds 0) STDIN_FILENO, Close (Pipefds 0), Close (Pipefds 1),
               Execvp [''cat'']]
              (Replaced [''cat'']),
         Close (Pipefds 0), Close (Pipefds 1), Wait, Wait],
        \<lparr>jobs = [], nextJobId = 1, history = [''sleep 5 | cat &'']\<rparr>)"
  by code_simp

text \<open>
  C2, as the code has it. The handler maps each reaped change for a job's process
  identifier onto the job's two-valued \<^verbatim>\<open>running\<close> flag: exited or killed gives
  \<open>False\<close>, stopped by a signal gives \<open>False\<close>, continued gives \<open>True\<close>; and a
  drain is the one-change drain repeated. The table after an exit is the table after a
  stop: there is no third state.
\<close>

theorem sigchldHandler_running_flag:
  assumes "0 < p" and "i < length tbl" and "pid (tbl ! i) = p"
  shows "(WIFEXITED st \<or> WIFSIGNALED st \<longrightarrow> \<not> running (sigchldHandler [(p, st)] tbl ! i)) \<and>
         (WIFSTOPPED st \<longrightarrow> \<not> running (sigchldHandler [(p, st)] tbl ! i)) \<and>
         (WIFCONTINUED st \<longrightarrow> running (sigchldHandler [(p, st)] tbl ! i)) \<and>
         sigchldHandler ((p, st) # pending) tbl =
           sigchldHandler pending (sigchldHandler [(p, st)] tbl) \<and>
         sigchldHandler [(p, WExited code)] tbl = sigchldHandler [(p, WStopped sig)] tbl"
  using assms by (cases st) (simp_all add: reap_job_def)

theorem sigchldHandler_running_flag_witness:
  "(0::int) < 100 \<and> 0 < length example_jobs \<and> pid (example_jobs ! 0) = 100 \<and>
   \<not> running (sigchldHandler [(100, WStopped 19)] example_jobs ! 0) \<and>
   \<not> running (sigchldHandler [(100, WSignaled 9)] example_jobs ! 0) \<and>
   running (sigchldHandler [(100, WContinued)] example_jobs ! 0)"
proof -
  have h: "(0::int) < 100" "0 < length example_jobs" "pid (example_jobs ! 0) = 100"
    by (simp_all add: example_jobs_def)
  show ?thesis
    using h sigchldHandler_running_flag [OF h, of "WStopped 19"]
      sigchldHandler_running_flag [OF h, of "WSignaled 9"]
      sigchldHandler_running_flag [OF h, of WContinued]
    by simp
qed

text \<open>
  C2 as stated fails: the claim has exits and stops lead to two different states
  (Done, Stopped) with Done terminal. In the code a job whose process exited is in the
  same state as one whose process was stopped; a later continue notification for that
  process identifier, or \<^verbatim>\<open>bg\<close> on the job, makes it running again.
\<close>

theorem job_tri_state_counterexample:
  "sigchldHandler [(100, WExited 0)] example_jobs =
     sigchldHandler [(100, WStopped 19)] example_jobs \<and>
   running (sigchldHandler [(100, WExited 0), (100, WContinued)] example_jobs ! 0) \<and>
   handleJobBuiltins [''bg'', ''1''] (sigchldHandler [(100, WExited 0)] example_jobs) =
     Inr (True, [Kill_SIGCONT 100], example_jobs)"
  by code_simp

text \<open>
  C3. No input line should end the shell other than end of input or \<^verbatim>\<open>exit\<close>. On
  \<^verbatim>\<open>fg abc\<close> the call \<^verbatim>\<open>std::stoi("abc")\<close> throws \<^verbatim>\<open>std::invalid_argument\<close>;
  neither \<^verbatim>\<open>handleJobBuiltins\<close> nor \<^verbatim>\<open>runCommand\<close> nor \<^verbatim>\<open>main\<close> catches it, the
  process terminates, and the next line is never read.
\<close>

theorem main_fg_non_numeric:
  "main example_os [(''fg abc'', 100), (''echo hi'', 101)] = Inl (Uncaught invalid_argument)"
  by code_simp

text \<open>
  C4. For a pipeline of \<open>N \<ge> 2\<close> stages the parent makes, in this order: \<open>N - 1\<close>
  calls of \<^verbatim>\<open>pipe\<close> (filling \<open>2 * (N - 1)\<close> descriptors), \<open>N\<close> calls of
  \<^verbatim>\<open>fork\<close>, one per stage, a \<^verbatim>\<open>close\<close> of each of the \<open>2 * (N - 1)\<close> pipe
  descriptors, and \<open>N\<close> calls of \<^verbatim>\<open>wait\<close>.
\<close>

theorem executePipeline_shape:
  assumes "2 \<le> length commands"
  shows "executePipeline sys commands =
      map (\<lambda>k. Pipe (int k)) [0..<length commands - 1] @
      map (\<lambda>k. Fork (fst (pipeline_child sys commands (int k)))
                     (snd (pipeline_child sys commands (int k)))) [0..<length commands] @
      map (\<lambda>k. Close (Pipefds (int k))) [0..<2 * (length commands - 1)] @
      replicate (length commands) Wait"
proof -
  have a: "nat (int (length commands) - 1) = length commands - 1" by simp
  have b: "nat (2 * (int (length commands) - 1)) = 2 * (length commands - 1)"
    using assms by simp
  show ?thesis
    unfolding executePipeline_def Let_def for_range_singleton a b
    by (simp add: map_replicate_const)
qed

theorem executePipeline_shape_witness:
  "2 \<le> length [''ls '', '' sort '', '' wc''] \<and>
   executePipeline example_os [''ls '', '' sort '', '' wc''] =
     [Pipe 0, Pipe 1,
      Fork (fst (pipeline_child example_os [''ls '', '' sort '', '' wc''] 0))
           (snd (pipeline_child example_os [''ls '', '' sort '', '' wc''] 0)),
      Fork (fst (pipeline_child example_os [''ls '', '' sort '', '' wc''] 1))
           (snd (pipeline_child example_os [''ls '', '' sort '', '' wc''] 1)),
      Fork (fst (pipeline_child example_os [''ls '', '' sort '', '' wc''] 2))
           (snd (pipeline_child example_os [''ls '', '' sort '', '' wc''] 2)),
      Close (Pipefds 0), Close (Pipefds 1), Close (Pipefds 2), Close (Pipefds 3),
      Wait, Wait, Wait]"
proof -
  have h: "2 \<le> length [''ls '', '' sort '', '' wc'']" by simp
  have u: "[0..<3] = [0, 1, 2]" "[0..<2] = [0, 1]" "[0..<4] = [0, 1, 2, 3]"
    by (simp_all add: upt_rec)
  have r: "replicate 3 Wait = [Wait, Wait, Wait]" by (simp add: numeral_3_eq_3)
  show ?thesis
    using executePipeline_shape [OF h, of example_os] by (simp add: u r)
qed


text \<open>
  C5, as the code has it. The Windows table and the Linux table share exactly six names.
  \<^verbatim>\<open>detectCommandType\<close> gives \<open>WINDOWS\<close> for every name of the Windows table
  except \<^verbatim>\<open>cls\<close> (so also for the six shared names), \<open>LINUX\<close> for every name of the
  Linux table that is not in the Windows table, and \<open>AUTO_DETECT\<close> for every name in
  neither table; \<^verbatim>\<open>cls\<close>, a built-in that is also in the Windows table, is
  \<open>AUTO_DETECT\<close>.
\<close>

theorem detectCommandType_tables:
  "set windowsCommands \<inter> set linuxCommands =
     {''cd'', ''sort'', ''find'', ''more'', ''ping'', ''netstat''} \<and>
   (command \<in> set windowsCommands \<and> command \<noteq> ''cls'' \<longrightarrow>
      detectCommandType command = WINDOWS) \<and>
   (command \<in> set linuxCommands \<and> command \<notin> set windowsCommands \<longrightarrow>
      detectCommandType command = LINUX) \<and>
   (command \<notin> set windowsCommands \<and> command \<notin> set linuxCommands \<longrightarrow>
      detectCommandType command = AUTO_DETECT) \<and>
   detectCommandType ''cls'' = AUTO_DETECT"
proof -
  have "detectCommandType ''cls'' = AUTO_DETECT"
    by (simp add: detectCommandType_def isBuiltinCommand_def builtins_def)
  then show ?thesis
    using windows_builtin [of command] linux_builtin [of command] tables_overlap
    by (simp add: detectCommandType_def isBuiltinCommand_def isWindowsCommand_def
        isLinuxCommand_def)
qed

theorem detectCommandType_tables_witness:
  "(''dir'' \<in> set windowsCommands \<and> ''dir'' \<noteq> ''cls'' \<and> detectCommandType ''dir'' = WINDOWS) \<and>
   (''ls'' \<in> set linuxCommands \<and> ''ls'' \<notin> set windowsCommands \<and>
      detectCommandType ''ls'' = LINUX) \<and>
   (''frobnicate'' \<notin> set windowsCommands \<and> ''frobnicate'' \<notin> set linuxCommands \<and>
      detectCommandType ''frobnicate'' = AUTO_DETECT)"
proof -
  have w: "''dir'' \<in> set windowsCommands" "''ls'' \<notin> set windowsCommands"
    "''frobnicate'' \<notin> set windowsCommands"
    by (simp_all add: windowsCommands_def)
  have l: "''ls'' \<in> set linuxCommands" "''frobnicate'' \<notin> set linuxCommands"
    by (simp_all add: linuxCommands_def)
  show ?thesis
    using w l detectCommandType_tables [of "''dir''"] detectCommandType_tables [of "''ls''"]
      detectCommandType_tables [of "''frobnicate''"]
    by simp
qed

text \<open>
  C5 as stated fails: the two tables are not disjoint, and a name of the Linux table that
  is also in the Windows table is classified \<open>WINDOWS\<close>, not \<open>LINUX\<close>; a name of the
  Windows table that is a built-in is classified \<open>AUTO_DETECT\<close>.
\<close>

theorem classifier_tables_counterexample:
  "''sort'' \<in> set windowsCommands \<and> ''sort'' \<in> set linuxCommands \<and>
   detectCommandType ''sort'' = WINDOWS \<and>
   ''cls'' \<in> set windowsCommands \<and> detectCommandType ''cls'' = AUTO_DETECT"
  by (simp add: detectCommandType_def isBuiltinCommand_def isWindowsCommand_def
      isLinuxCommand_def windowsCommands_def linuxCommands_def builtins_def)

text \<open>
  \<^verbatim>\<open>fg\<close> and \<^verbatim>\<open>bg\<close> when \<^verbatim>\<open>std::stoi\<close> returns: on an identifier in the table
  (job \<open>j\<close>, the first with it), \<^verbatim>\<open>fg\<close> sends \<^verbatim>\<open>SIGCONT\<close> to the job's
  process, waits for that process with a blocking \<^verbatim>\<open>waitpid\<close>, and erases the job;
  \<^verbatim>\<open>bg\<close> sends \<^verbatim>\<open>SIGCONT\<close>, marks the job running and leaves it in the table. On
  an identifier that is not in the table, both print \<^verbatim>\<open>job not found\<close> and leave the
  table as it was.
\<close>

lemma handleJobBuiltins_fg_bg:
  assumes "stoi s = Inr jid"
  shows "((\<forall>k \<in> set pre. job_id k \<noteq> jid) \<and> job_id j = jid \<longrightarrow>
           handleJobBuiltins [''fg'', s] (pre @ j # rest) =
             Inr (True, [Kill_SIGCONT (pid j), Waitpid (pid j)], pre @ rest) \<and>
           handleJobBuiltins [''bg'', s] (pre @ j # rest) =
             Inr (True, [Kill_SIGCONT (pid j)], pre @ j\<lparr>running := True\<rparr> # rest)) \<and>
         ((\<forall>k \<in> set tbl. job_id k \<noteq> jid) \<longrightarrow>
           handleJobBuiltins [''fg'', s] tbl =
             Inr (True,
                  [Cerr [Str ''fg'', Str '': job not found: '', Num jid, Str [CHR 0x0A]]],
                  tbl) \<and>
           handleJobBuiltins [''bg'', s] tbl =
             Inr (True,
                  [Cerr [Str ''bg'', Str '': job not found: '', Num jid, Str [CHR 0x0A]]],
                  tbl))"
  using assms
  by (simp add: handleJobBuiltins_def fg_bg_loop_absent fg_bg_loop_present)

lemma handleJobBuiltins_fg_bg_example:
  "stoi ''2'' = Inr 2 \<and> stoi ''7'' = Inr 7 \<and>
   job_id (example_jobs ! 0) \<noteq> 2 \<and> job_id (example_jobs ! 1) = 2 \<and>
   7 \<notin> job_id ` set example_jobs \<and>
   handleJobBuiltins [''fg'', ''2''] example_jobs =
     Inr (True, [Kill_SIGCONT 200, Waitpid 200], [example_jobs ! 0]) \<and>
   handleJobBuiltins [''fg'', ''7''] example_jobs =
     Inr (True, [Cerr [Str ''fg'', Str '': job not found: '', Num 7, Str [CHR 0x0A]]],
          example_jobs)"
proof -
  have s2: "stoi ''2'' = Inr 2" and s7: "stoi ''7'' = Inr 7"
    by code_simp+
  have pre: "\<forall>k \<in> set [example_jobs ! 0]. job_id k \<noteq> 2" "job_id (example_jobs ! 1) = 2"
    and absent: "\<forall>k \<in> set example_jobs. job_id k \<noteq> 7"
    by (simp_all add: example_jobs_def)
  have split: "example_jobs = [example_jobs ! 0] @ example_jobs ! 1 # []"
    and p: "pid (example_jobs ! 1) = 200"
    by (simp_all add: example_jobs_def)
  have "handleJobBuiltins [''fg'', ''2''] ([example_jobs ! 0] @ example_jobs ! 1 # []) =
     Inr (True, [Kill_SIGCONT 200, Waitpid 200], [example_jobs ! 0])"
    using handleJobBuiltins_fg_bg [OF s2, of "[example_jobs ! 0]" "example_jobs ! 1" "[]"] pre p
    by simp
  then have fg2: "handleJobBuiltins [''fg'', ''2''] example_jobs =
     Inr (True, [Kill_SIGCONT 200, Waitpid 200], [example_jobs ! 0])"
    using split by simp
  have fg7: "handleJobBuiltins [''fg'', ''7''] example_jobs =
     Inr (True, [Cerr [Str ''fg'', Str '': job not found: '', Num 7, Str [CHR 0x0A]]],
          example_jobs)"
    using absent handleJobBuiltins_fg_bg [OF s7, of "[]" _ "[]" example_jobs] by simp
  have "job_id (example_jobs ! 0) \<noteq> 2" "7 \<notin> job_id ` set example_jobs"
    by (simp_all add: example_jobs_def)
  then show ?thesis
    using s2 s7 pre(2) fg2 fg7 by simp
qed

text \<open>
  C6. \<^verbatim>\<open>fg\<close> or \<^verbatim>\<open>bg\<close> on a job identifier that is not in the table should fail
  with a job-not-found report and leave the table unchanged. For the absent identifiers
  \<^verbatim>\<open>99999999999\<close> and \<^verbatim>\<open>2147483648\<close>, which do not fit an \<^verbatim>\<open>int\<close>,
  \<^verbatim>\<open>std::stoi\<close> throws \<^verbatim>\<open>std::out_of_range\<close> before the table is searched: no
  report is printed, and as nothing catches the exception the shell process ends. The
  loop below the call, which prints \<^verbatim>\<open>job not found\<close> for every other absent
  identifier, is never reached.
\<close>

theorem handleJobBuiltins_absent_id_throws:
  "handleJobBuiltins [''fg'', ''99999999999''] example_jobs = Inl out_of_range \<and>
   handleJobBuiltins [''bg'', ''2147483648''] example_jobs = Inl out_of_range \<and>
   main example_os [(''fg 99999999999'', 100), (''echo hi'', 101)] =
     Inl (Uncaught out_of_range)"
  by code_simp

text \<open>
  C7, as the code has it. \<^verbatim>\<open>handleRedirection\<close> does not test what \<^verbatim>\<open>open\<close>
  returns. For a stage (of a pipeline, or a single command) that redirects to a path that
  cannot be opened (\<^verbatim>\<open>open\<close> returns \<open>-1\<close>): the argument list holds an operator
  followed by that path; the calls made for it are \<^verbatim>\<open>open\<close>, \<^verbatim>\<open>dup2\<close> of \<open>-1\<close>
  onto the stream of the operator, and \<^verbatim>\<open>close\<close> of \<open>-1\<close>; the operator and the
  path are both removed from the arguments; nothing is printed by the redirection
  handling; and the stage goes on to \<^verbatim>\<open>execvp\<close> with the arguments that are left, so
  that the program runs when \<^verbatim>\<open>execvp\<close> finds it.
\<close>

theorem redirection_failure_unreported:
  assumes "Open path flags \<in> set (fst (handleRedirection sys args))"
    and "os_open sys path flags = - 1"
  shows
   "(\<exists>xs op rest.
        args = xs @ op # path # rest \<and> is_redirect op \<and> flags = redirect_flags op \<and>
        (\<forall>a \<in> set (snd (handleRedirection sys xs)). \<not> is_redirect a) \<and>
        handleRedirection sys args =
          (fst (handleRedirection sys xs) @
           [Open path flags,
            Dup2 (Fd (- 1)) (if op = ''<'' then STDIN_FILENO else STDOUT_FILENO),
            Close (Fd (- 1))] @
           fst (handleRedirection sys rest),
           snd (handleRedirection sys xs) @ snd (handleRedirection sys rest))) \<and>
    (\<forall>e \<in> set (fst (handleRedirection sys args)). \<not> is_report e) \<and>
    (tokenize (commands ! nat i) = args \<longrightarrow>
       (\<exists>pre post. fst (pipeline_child sys commands i) =
           pre @ fst (handleRedirection sys args) @ Execvp (snd (handleRedirection sys args)) # post \<and>
           (\<forall>e \<in> set pre. \<not> is_report e)) \<and>
       (snd (handleRedirection sys args) \<noteq> [] \<and> os_execvp sys (snd (handleRedirection sys args)) \<longrightarrow>
          snd (pipeline_child sys commands i) = Replaced (snd (handleRedirection sys args)))) \<and>
    (\<exists>post. fst (single_child sys args) =
        fst (handleRedirection sys args) @ Execvp (snd (handleRedirection sys args)) # post) \<and>
    (snd (handleRedirection sys args) \<noteq> [] \<and> os_execvp sys (snd (handleRedirection sys args)) \<longrightarrow>
       snd (single_child sys args) = Replaced (snd (handleRedirection sys args)))"
proof -
  have a: "\<exists>xs op rest.
        args = xs @ op # path # rest \<and> is_redirect op \<and> flags = redirect_flags op \<and>
        (\<forall>a \<in> set (snd (handleRedirection sys xs)). \<not> is_redirect a) \<and>
        handleRedirection sys args =
          (fst (handleRedirection sys xs) @
           [Open path flags,
            Dup2 (Fd (- 1)) (if op = ''<'' then STDIN_FILENO else STDOUT_FILENO),
            Close (Fd (- 1))] @
           fst (handleRedirection sys rest),
           snd (handleRedirection sys xs) @ snd (handleRedirection sys rest))"
    using handleRedirection_decompose [OF assms(1)] assms(2) by simp
  have b: "\<forall>e \<in> set (fst (handleRedirection sys args)). \<not> is_report e"
    using handleRedirection_silent by blast
  have c: "tokenize (commands ! nat i) = args \<longrightarrow>
       (\<exists>pre post. fst (pipeline_child sys commands i) =
           pre @ fst (handleRedirection sys args) @ Execvp (snd (handleRedirection sys args)) # post \<and>
           (\<forall>e \<in> set pre. \<not> is_report e)) \<and>
       (snd (handleRedirection sys args) \<noteq> [] \<and> os_execvp sys (snd (handleRedirection sys args)) \<longrightarrow>
          snd (pipeline_child sys commands i) = Replaced (snd (handleRedirection sys args)))"
  proof
    assume t: "tokenize (commands ! nat i) = args"
    have "snd (handleRedirection sys args) \<noteq> [] \<and> os_execvp sys (snd (handleRedirection sys args)) \<longrightarrow>
          snd (pipeline_child sys commands i) = Replaced (snd (handleRedirection sys args))"
      using t by (simp add: pipeline_child_def Let_def)
    then show "(\<exists>pre post. fst (pipeline_child sys commands i) =
           pre @ fst (handleRedirection sys args) @ Execvp (snd (handleRedirection sys args)) # post \<and>
           (\<forall>e \<in> set pre. \<not> is_report e)) \<and>
       (snd (handleRedirection sys args) \<noteq> [] \<and> os_execvp sys (snd (handleRedirection sys args)) \<longrightarrow>
          snd (pipeline_child sys commands i) = Replaced (snd (handleRedirection sys args)))"
      using pipeline_child_trace [of sys commands i] t by simp
  qed
  have d: "snd (handleRedirection sys args) \<noteq> [] \<and> os_execvp sys (snd (handleRedirection sys args)) \<longrightarrow>
       snd (single_child sys args) = Replaced (snd (handleRedirection sys args))"
    by (simp add: single_child_def Let_def)
  show ?thesis
    using a b c d single_child_trace [of sys args] by blast
qed

theorem redirection_failure_unreported_witness:
  "Open ''/no/such/file'' O_RDONLY \<in>
     set (fst (handleRedirection example_os [''wc'', ''>'', ''out'', ''<'', ''/no/such/file'', ''-l''])) \<and>
   os_open example_os ''/no/such/file'' O_RDONLY = - 1 \<and>
   tokenize ([''wc > out < /no/such/file -l '', '' cat''] ! nat 0) =
     [''wc'', ''>'', ''out'', ''<'', ''/no/such/file'', ''-l''] \<and>
   handleRedirection example_os [''wc'', ''>'', ''out'', ''<'', ''/no/such/file'', ''-l''] =
     ([Open ''out'' O_WRONLY_CREAT_TRUNC, Dup2 (Fd 3) STDOUT_FILENO, Close (Fd 3),
       Open ''/no/such/file'' O_RDONLY, Dup2 (Fd (- 1)) STDIN_FILENO, Close (Fd (- 1))],
      [''wc'', ''-l'']) \<and>
   os_execvp example_os [''wc'', ''-l''] \<and>
   snd (pipeline_child example_os [''wc > out < /no/such/file -l '', '' cat''] 0) =
     Replaced [''wc'', ''-l''] \<and>
   snd (single_child example_os [''wc'', ''>'', ''out'', ''<'', ''/no/such/file'', ''-l'']) =
     Replaced [''wc'', ''-l'']"
proof -
  have h: "handleRedirection example_os [''wc'', ''>'', ''out'', ''<'', ''/no/such/file'', ''-l''] =
     ([Open ''out'' O_WRONLY_CREAT_TRUNC, Dup2 (Fd 3) STDOUT_FILENO, Close (Fd 3),
       Open ''/no/such/file'' O_RDONLY, Dup2 (Fd (- 1)) STDIN_FILENO, Close (Fd (- 1))],
      [''wc'', ''-l''])"
    by code_simp
  have t: "tokenize ([''wc > out < /no/such/file -l '', '' cat''] ! nat 0) =
     [''wc'', ''>'', ''out'', ''<'', ''/no/such/file'', ''-l'']"
    by code_simp
  have a: "Open ''/no/such/file'' O_RDONLY \<in>
     set (fst (handleRedirection example_os [''wc'', ''>'', ''out'', ''<'', ''/no/such/file'', ''-l'']))"
    unfolding h by simp
  have b: "os_open example_os ''/no/such/file'' O_RDONLY = - 1"
    by (simp add: example_os_def)
  have c: "os_execvp example_os [''wc'', ''-l'']" by (simp add: example_os_def)
  note inst = redirection_failure_unreported [OF a b, of "[''wc > out < /no/such/file -l '', '' cat'']" 0]
  have p: "snd (pipeline_child example_os [''wc > out < /no/such/file -l '', '' cat''] 0) =
     Replaced [''wc'', ''-l'']"
    using inst t c unfolding h by simp
  have s: "snd (single_child example_os [''wc'', ''>'', ''out'', ''<'', ''/no/such/file'', ''-l'']) =
     Replaced [''wc'', ''-l'']"
    using inst c unfolding h by simp
  show ?thesis using a b t h c p s by simp
qed

text \<open>
  C7 as stated fails: on the stage \<^verbatim>\<open>cat < /no/such/file\<close> of a pipeline, with a path
  that cannot be opened, the child prints nothing and its image is replaced by
  \<^verbatim>\<open>cat\<close>.
\<close>

theorem redirection_error_counterexample:
  "pipeline_child example_os [''cat < /no/such/file '', '' wc''] 0 =
     ([Dup2 (Pipefds 1) STDOUT_FILENO, Close (Pipefds 0), Close (Pipefds 1),
       Open ''/no/such/file'' O_RDONLY, Dup2 (Fd (- 1)) STDIN_FILENO, Close (Fd (- 1)),
       Execvp [''cat'']],
      Replaced [''cat''])"
  by code_simp

text \<open>
  C8. A pipeline stage whose \<^verbatim>\<open>execvp\<close> fails should print a diagnostic naming the
  command, with a typo suggestion, and exit with a non-zero status. The child branch of
  \<^verbatim>\<open>executePipeline\<close> prints \<^verbatim>\<open>perror("exec failed")\<close> only, with neither the
  command's name nor a call of \<^verbatim>\<open>suggest\<close>, and exits with status 1.
\<close>

theorem pipeline_child_exec_failure:
  "pipeline_child example_os [''hlep '', '' cat''] 0 =
     ([Dup2 (Pipefds 1) STDOUT_FILENO, Close (Pipefds 0), Close (Pipefds 1),
       Execvp [''hlep''], Perror ''exec failed''],
      Exited 1)"
  by code_simp

text \<open>
  The child branch of \<^verbatim>\<open>runCommand\<close> does both on the same command: it names the
  command and calls \<^verbatim>\<open>suggest\<close>.
\<close>

lemma single_child_exec_failure:
  "single_child example_os [''hlep''] =
     ([Execvp [''hlep''],
       Cerr [Str ''Error: `'', Str ''hlep'', Str ''`: '', Strerror, Str [CHR 0x0A]],
       Cout [Str ''Did you mean `'', Str ''help'', Str (''`?'' @ [CHR 0x0A])]],
      Exited 1)"
  by code_simp

text \<open>
  C9. The handler neither inserts nor removes a job and changes no job's identifier,
  process identifier or command line; a job whose process identifier is not among the
  reaped ones is left as it was, and when no job has a reaped process identifier the whole
  table is left as it was.
\<close>

theorem sigchldHandler_frame:
  "length (sigchldHandler pending tbl) = length tbl \<and>
   map job_id (sigchldHandler pending tbl) = map job_id tbl \<and>
   map pid (sigchldHandler pending tbl) = map pid tbl \<and>
   map cmdline (sigchldHandler pending tbl) = map cmdline tbl \<and>
   (\<forall>i < length tbl. pid (tbl ! i) \<notin> fst ` set pending \<longrightarrow>
      sigchldHandler pending tbl ! i = tbl ! i) \<and>
   ((\<forall>j \<in> set tbl. pid j \<notin> fst ` set pending) \<longrightarrow> sigchldHandler pending tbl = tbl)"
  using sigchldHandler_length [of pending tbl] sigchldHandler_fields [of pending tbl]
    sigchldHandler_nth_other [of _ tbl pending] sigchldHandler_no_match [of tbl pending]
  by blast

theorem sigchldHandler_frame_witness:
  "1 < length example_jobs \<and> pid (example_jobs ! 1) \<notin> fst ` set [(100, WExited 0)] \<and>
   sigchldHandler [(100, WExited 0)] example_jobs ! 1 = example_jobs ! 1 \<and>
   pid ` set example_jobs \<inter> fst ` set [(300, WStopped 19), (301, WContinued)] = {} \<and>
   sigchldHandler [(300, WStopped 19), (301, WContinued)] example_jobs = example_jobs \<and>
   map job_id (sigchldHandler [(100, WExited 0)] example_jobs) = [1, 2]"
proof -
  have a: "1 < length example_jobs" "pid (example_jobs ! 1) \<notin> fst ` set [(100, WExited 0)]"
    by (simp_all add: example_jobs_def)
  have b: "\<forall>j \<in> set example_jobs. pid j \<notin> fst ` set [(300, WStopped 19), (301, WContinued)]"
    by (simp add: example_jobs_def)
  have c: "map job_id example_jobs = [1, 2]" by (simp add: example_jobs_def)
  have d: "pid ` set example_jobs \<inter> fst ` set [(300, WStopped 19), (301, WContinued)] = {}"
    by (simp add: example_jobs_def)
  have e: "sigchldHandler [(300, WStopped 19), (301, WContinued)] example_jobs = example_jobs"
    using b sigchldHandler_frame [of "[(300, WStopped 19), (301, WContinued)]" example_jobs]
    by blast
  have f: "sigchldHandler [(100, WExited 0)] example_jobs ! 1 = example_jobs ! 1"
    using a sigchldHandler_frame [of "[(100, WExited 0)]" example_jobs] by blast
  have g: "map job_id (sigchldHandler [(100, WExited 0)] example_jobs) = [1, 2]"
    using c sigchldHandler_frame [of "[(100, WExited 0)]" example_jobs] by simp
  show ?thesis
    using a d e f g by simp
qed

text \<open>
  C10, as the code has it. When the last token is a redirection operator and the token
  before it (if there is one) is not a redirection operator, the scan does for the whole
  list exactly what it does for the list without that last token, prints nothing, and
  leaves the operator as the last argument, which \<^verbatim>\<open>execvp\<close> is then called with.
\<close>

theorem handleRedirection_trailing_operator:
  assumes "is_redirect op" and "xs = [] \<or> \<not> is_redirect (last xs)"
  shows "handleRedirection sys (xs @ [op]) =
           (fst (handleRedirection sys xs), snd (handleRedirection sys xs) @ [op]) \<and>
         (\<forall>e \<in> set (fst (handleRedirection sys (xs @ [op]))). \<not> is_report e) \<and>
         Execvp (snd (handleRedirection sys xs) @ [op]) \<in> set (fst (single_child sys (xs @ [op])))"
proof -
  have inv: "0 = length xs \<or> (0 < length xs \<and> \<not> is_redirect (last xs))"
    using assms(2) by auto
  have eq: "handleRedirection sys (xs @ [op]) =
           (fst (handleRedirection sys xs), snd (handleRedirection sys xs) @ [op])"
    unfolding handleRedirection_def
    by (rule handleRedirection_loop_trailing [OF assms(1) inv])
  have "Execvp (snd (handleRedirection sys (xs @ [op]))) \<in> set (fst (single_child sys (xs @ [op])))"
    by (simp add: single_child_def Let_def)
  then show ?thesis
    using eq handleRedirection_silent [of _ sys "xs @ [op]"] by simp
qed

theorem handleRedirection_trailing_operator_witness:
  "is_redirect ''>'' \<and> \<not> is_redirect (last [''echo'', ''hi'']) \<and>
   handleRedirection example_os ([''echo'', ''hi''] @ [''>'']) = ([], [''echo'', ''hi'', ''>'']) \<and>
   Execvp [''echo'', ''hi'', ''>''] \<in> set (fst (single_child example_os ([''echo'', ''hi''] @ [''>''])))"
proof -
  have a: "is_redirect ''>''" by (simp add: is_redirect_def)
  have b: "[''echo'', ''hi''] = [] \<or> \<not> is_redirect (last [''echo'', ''hi''])"
    by (simp add: is_redirect_def)
  have h: "handleRedirection example_os [''echo'', ''hi''] = ([], [''echo'', ''hi''])"
    by code_simp
  show ?thesis
    using a b handleRedirection_trailing_operator [OF a b, of example_os] unfolding h by simp
qed

text \<open>
  C10 as stated fails: in \<^verbatim>\<open>cat > >\<close> the last token is a redirection operator with
  nothing after it, but the scan takes it as the path of the operator before it: a file
  named \<^verbatim>\<open>>\<close> is opened onto standard output and the token does not reach the program.
\<close>

theorem trailing_operator_counterexample:
  "handleRedirection example_os [''cat'', ''>'', ''>''] =
     ([Open ''>'' O_WRONLY_CREAT_TRUNC, Dup2 (Fd 3) STDOUT_FILENO, Close (Fd 3)], [''cat''])"
  by code_simp

end
